theory Spec2Isabelle
  imports Main "HOL-Library.Sublist"
begin

section \<open>Text frames\<close>

text \<open>
  The message handler of \<^verbatim>\<open>server.js\<close> starts with
  \<^verbatim>\<open>const lineSplit = data.toString().split(' ')\<close> and later rebuilds the payload with
  \<^verbatim>\<open>lineSplit.slice(2).join(' ')\<close>. A frame is the text \<^verbatim>\<open>data.toString()\<close>; one
  \<^typ>\<open>char\<close> stands for one code unit of that text. \<open>js_split\<close> is
  \<^verbatim>\<open>String.prototype.split\<close> with the separator \<^verbatim>\<open>' '\<close>: it never returns the empty
  array, and two adjacent spaces give an empty token. \<open>js_join\<close> is
  \<^verbatim>\<open>Array.prototype.join\<close> with the separator \<^verbatim>\<open>' '\<close>.
\<close>

fun js_split :: "string \<Rightarrow> string list" where
  "js_split [] = [[]]"
| "js_split (c # cs) =
     (if c = CHR '' '' then [] # js_split cs
      else (case js_split cs of [] \<Rightarrow> [[c]] | w # ws \<Rightarrow> (c # w) # ws))"

fun js_join :: "string list \<Rightarrow> string" where
  "js_join [] = []"
| "js_join [w] = w"
| "js_join (w # v # ws) = w @ CHR '' '' # js_join (v # ws)"

text \<open>\<^verbatim>\<open>xs[i]\<close> on a JavaScript array: \<^verbatim>\<open>undefined\<close> (here \<open>None\<close>) out of range.\<close>

definition js_index :: "'a list \<Rightarrow> nat \<Rightarrow> 'a option" where
  "js_index xs i = (if i < length xs then Some (xs ! i) else None)"

text \<open>
  \<^verbatim>\<open>'/state ' + x\<close> where \<open>x\<close> is a string or \<^verbatim>\<open>undefined\<close>: string concatenation
  converts \<^verbatim>\<open>undefined\<close> to the text \<^verbatim>\<open>undefined\<close>.
\<close>

definition to_text :: "string option \<Rightarrow> string" where
  "to_text x = (case x of None \<Rightarrow> ''undefined'' | Some t \<Rightarrow> t)"

section \<open>JSON values and JavaScript objects\<close>

text \<open>
  What \<^verbatim>\<open>JSON.parse\<close> returns. The number type is a parameter: the server never looks
  inside a state. An object is the list of its own properties in the order
  \<^verbatim>\<open>Object.entries\<close> enumerates them.
\<close>

datatype 'n json =
    JNull
  | JBool bool
  | JNum 'n
  | JStr string
  | JArr "'n json list"
  | JObj "(string \<times> 'n json) list"

text \<open>
  Own properties of an ordinary object are enumerated with the array indices first, in
  ascending numeric order, then the other string keys in the order of their creation.
  An array index is the canonical decimal text of an integer from 0 to \<open>2^32 - 2\<close>.
\<close>

definition is_digit :: "char \<Rightarrow> bool" where
  "is_digit c = (48 \<le> (of_char c :: nat) \<and> (of_char c :: nat) \<le> 57)"

definition digits_value :: "string \<Rightarrow> int" where
  "digits_value s = foldl (\<lambda>a c. 10 * a + ((of_char c :: int) - 48)) 0 s"

definition is_array_index :: "string \<Rightarrow> bool" where
  "is_array_index s =
     (s \<noteq> [] \<and> list_all is_digit s \<and> (length s = 1 \<or> hd s \<noteq> CHR ''0'')
      \<and> length s \<le> 10 \<and> digits_value s \<le> 4294967294)"

fun obj_insert :: "(string \<times> 'a) list \<Rightarrow> string \<Rightarrow> 'a \<Rightarrow> (string \<times> 'a) list" where
  "obj_insert [] k v = [(k, v)]"
| "obj_insert ((k', v') # ps) k v =
     (if is_array_index k \<and> (\<not> is_array_index k' \<or> digits_value k < digits_value k')
      then (k, v) # (k', v') # ps
      else (k', v') # obj_insert ps k v)"

text \<open>
  \<^verbatim>\<open>obj[k] = v\<close> for a key that is an own property or is not visible at all, and the
  property creation of \<^verbatim>\<open>Object.fromEntries\<close>: an existing own property keeps its
  place and takes the new value, a new one is inserted in enumeration order.
\<close>

definition obj_put :: "(string \<times> 'a) list \<Rightarrow> string \<Rightarrow> 'a \<Rightarrow> (string \<times> 'a) list" where
  "obj_put obj k v =
     (if k \<in> set (map fst obj)
      then map (\<lambda>p. if fst p = k then (k, v) else p) obj
      else obj_insert obj k v)"

definition Object_fromEntries :: "(string \<times> 'a) list \<Rightarrow> (string \<times> 'a) list" where
  "Object_fromEntries es = foldl (\<lambda>obj p. obj_put obj (fst p) (snd p)) [] es"

text \<open>The decimal text of an array position, as \<^verbatim>\<open>Object.entries\<close> names it.\<close>

fun dec :: "nat \<Rightarrow> string" where
  "dec n = (if n < 10 then [char_of (48 + n)] else dec (n div 10) @ [char_of (48 + n mod 10)])"

definition indexed :: "'a list \<Rightarrow> (string \<times> 'a) list" where
  "indexed xs = zip (map dec [0..<length xs]) xs"

text \<open>
  \<^verbatim>\<open>Object.entries\<close> of a parsed document: \<^verbatim>\<open>null\<close> raises a TypeError (\<open>None\<close>), a
  boolean or a number has no own enumerable property, a string and an array have one per
  position.
\<close>

fun Object_entries :: "'n json \<Rightarrow> (string \<times> 'n json) list option" where
  "Object_entries JNull = None"
| "Object_entries (JBool b) = Some []"
| "Object_entries (JNum n) = Some []"
| "Object_entries (JStr s) = Some (indexed (map (\<lambda>c. JStr [c]) s))"
| "Object_entries (JArr xs) = Some (indexed xs)"
| "Object_entries (JObj ps) = Some ps"

section \<open>The room registry\<close>

text \<open>
  \<^verbatim>\<open>let rooms = {}\<close>: an object from room id to \<^verbatim>\<open>{ state, clients }\<close>. \<open>state\<close> is
  \<^verbatim>\<open>undefined\<close> (\<open>None\<close>) or a parsed JSON value; \<open>clients\<close> is the array of sockets,
  in push order, duplicates kept.
\<close>

record ('c, 'n) room =
  state :: "'n json option"
  clients :: "'c list"

type_synonym ('c, 'n) rooms = "(string \<times> ('c, 'n) room) list"

text \<open>
  \<^verbatim>\<open>rooms\<close> is an object literal, so its prototype is \<^verbatim>\<open>Object.prototype\<close>, and the
  operator \<^verbatim>\<open>in\<close> also answers true for every property name found there: the names
  that \<^verbatim>\<open>Object.prototype\<close> starts with, and the name \<^verbatim>\<open>state\<close> once the handler has
  assigned \<^verbatim>\<open>rooms['__proto__'].state\<close>, which is \<^verbatim>\<open>Object.prototype.state\<close>. No other
  property is ever added there: the handler assigns the property \<^verbatim>\<open>state\<close> only.

  \<open>shared\<close> is the value of \<^verbatim>\<open>Object.prototype.state\<close>: \<open>held\<close> is the parsed value, with
  its own property \<^verbatim>\<open>state\<close> as later updates of the room id \<^verbatim>\<open>state\<close> left it, and
  \<open>pushed\<close> are the sockets that joins of the room id \<^verbatim>\<open>state\<close> pushed onto its
  \<^verbatim>\<open>clients\<close> array, behind the elements that were parsed.
\<close>

record ('c, 'n) shared =
  held :: "'n json"
  pushed :: "'c list"

definition Object_prototype_names :: "string list" where
  "Object_prototype_names =
     [''constructor'', ''__defineGetter__'', ''__defineSetter__'', ''hasOwnProperty'',
      ''__lookupGetter__'', ''__lookupSetter__'', ''isPrototypeOf'',
      ''propertyIsEnumerable'', ''toString'', ''valueOf'', ''__proto__'',
      ''toLocaleString'']"

definition js_in :: "string \<Rightarrow> ('c, 'n) shared option \<Rightarrow> (string \<times> 'a) list \<Rightarrow> bool" where
  "js_in k proto obj =
     (k \<in> set (map fst obj) \<or> k \<in> set Object_prototype_names
      \<or> (k = ''state'' \<and> proto \<noteq> None))"

section \<open>What the server takes from its runtime\<close>

datatype js_error = TypeError | SyntaxError

text \<open>
  \<open>token\<close> is \<^verbatim>\<open>argv.token\<close>. \<open>JSON_parse\<close> is \<^verbatim>\<open>JSON.parse\<close> on a text: \<open>None\<close>
  when it raises a SyntaxError. \<open>JSON_text\<close> is \<^verbatim>\<open>JSON.stringify\<close> on a value that
  \<^verbatim>\<open>JSON.parse\<close> returned, which is always a text. \<open>readyState\<close> reads
  \<^verbatim>\<open>client.readyState\<close>, and \<^verbatim>\<open>WebSocket.OPEN\<close> is the constant 1 of the runtime's
  global \<^verbatim>\<open>WebSocket\<close>; \<open>is_OPEN n\<close> says that the parsed number \<open>n\<close> is that constant.
  \<open>JSON_text_shared\<close> is \<^verbatim>\<open>JSON.stringify\<close> on the object that \<^verbatim>\<open>Object.prototype.state\<close>
  holds when its \<^verbatim>\<open>clients\<close> array has sockets in it, which is a text or a TypeError.
\<close>

record ('c, 'n) env =
  token :: string
  JSON_parse :: "string \<Rightarrow> 'n json option"
  JSON_text :: "'n json \<Rightarrow> string"
  readyState :: "'c \<Rightarrow> nat"
  is_OPEN :: "'n \<Rightarrow> bool"
  JSON_text_shared :: "'n json \<Rightarrow> 'c list \<Rightarrow> js_error + string"

definition WebSocket_OPEN :: nat where
  "WebSocket_OPEN = 1"

text \<open>\<^verbatim>\<open>JSON.stringify(x)\<close> for a state \<open>x\<close>: \<^verbatim>\<open>undefined\<close> gives \<^verbatim>\<open>undefined\<close>.\<close>

definition JSON_stringify :: "('c, 'n) env \<Rightarrow> 'n json option \<Rightarrow> string option" where
  "JSON_stringify e x = map_option (JSON_text e) x"

text \<open>
  \<^verbatim>\<open>JSON.stringify(obj)\<close> for an object whose property values are states serializes
  the properties whose value is not \<^verbatim>\<open>undefined\<close>, in their order, and leaves the others
  out of the text.
\<close>

fun defined_props :: "(string \<times> 'a option) list \<Rightarrow> (string \<times> 'a) list" where
  "defined_props [] = []"
| "defined_props ((k, None) # ps) = defined_props ps"
| "defined_props ((k, Some v) # ps) = (k, v) # defined_props ps"

section \<open>The snapshot file\<close>

text \<open>
  \<^verbatim>\<open>saveStateToDisk\<close>: the text handed to \<^verbatim>\<open>fs.writeFile('db.json', ...)\<close>. It is
  \<^verbatim>\<open>JSON.stringify\<close> of the object
  \<^verbatim>\<open>Object.fromEntries(Object.entries(rooms).map(([key, value]) => [key, value.state]))\<close>;
  \<open>snapshot_props\<close> are the properties of that object that \<^verbatim>\<open>JSON.stringify\<close> serializes.
\<close>

definition snapshot_props :: "('c, 'n) rooms \<Rightarrow> (string \<times> 'n json) list" where
  "snapshot_props rooms =
     defined_props (Object_fromEntries (map (\<lambda>(key, value). (key, state value)) rooms))"

definition saveStateToDisk :: "('c, 'n) env \<Rightarrow> ('c, 'n) rooms \<Rightarrow> string" where
  "saveStateToDisk e rooms = JSON_text e (JObj (snapshot_props rooms))"

text \<open>
  The start-up block: \<open>file\<close> is the content of \<^verbatim>\<open>db.json\<close>, \<open>None\<close> when it cannot
  be read. Every exception of the \<^verbatim>\<open>try\<close> block leaves \<^verbatim>\<open>rooms = {}\<close>.
\<close>

definition load_db :: "('c, 'n) env \<Rightarrow> string option \<Rightarrow> ('c, 'n) rooms" where
  "load_db e file =
     (case file of
        None \<Rightarrow> []
      | Some text \<Rightarrow>
          (case JSON_parse e text of
             None \<Rightarrow> []
           | Some doc \<Rightarrow>
               (case Object_entries doc of
                  None \<Rightarrow> []
                | Some es \<Rightarrow>
                    Object_fromEntries
                      (map (\<lambda>(key, value). (key, \<lparr>state = Some value, clients = []\<rparr>)) es))))"

section \<open>The message handler\<close>

text \<open>
  What one run of the handler leaves: the registry, the calls of \<^verbatim>\<open>send\<close> in order
  (socket and text), the exceptions \<^verbatim>\<open>console.error\<close> printed from the \<^verbatim>\<open>catch\<close>,
  the exception that left the handler uncaught, if any, and \<^verbatim>\<open>Object.prototype.state\<close>
  (\<open>None\<close> while \<^verbatim>\<open>Object.prototype\<close> has no such property).
\<close>

record ('c, 'n) outcome =
  registry :: "('c, 'n) rooms"
  sent :: "('c \<times> string) list"
  logged :: "js_error list"
  uncaught :: "js_error option"
  prototype :: "('c, 'n) shared option"

definition unchanged :: "('c, 'n) shared option \<Rightarrow> ('c, 'n) rooms \<Rightarrow> ('c, 'n) outcome" where
  "unchanged proto rooms =
     \<lparr>registry = rooms, sent = [], logged = [], uncaught = None, prototype = proto\<rparr>"

text \<open>The \<^verbatim>\<open>forEach\<close> over \<^verbatim>\<open>rooms[roomId].clients\<close>.\<close>

fun fan_out :: "('c, 'n) env \<Rightarrow> 'c \<Rightarrow> string \<Rightarrow> 'c list \<Rightarrow> ('c \<times> string) list" where
  "fan_out e ws frame [] = []"
| "fan_out e ws frame (client # rest) =
     (if client \<noteq> ws \<and> readyState e client = WebSocket_OPEN
      then (client, frame) # fan_out e ws frame rest
      else fan_out e ws frame rest)"

text \<open>
  \<^verbatim>\<open>rooms['state']\<close> when the registry has no room of that id and
  \<^verbatim>\<open>Object.prototype.state\<close> holds \<open>x\<close>, in the \<^verbatim>\<open>/room\<close> branch: \<^verbatim>\<open>x.clients.push(ws)\<close>
  raises a TypeError unless \<open>x\<close> is an object whose own property \<^verbatim>\<open>clients\<close> is an array;
  then the socket is pushed and \<^verbatim>\<open>x.state\<close> is serialized, which is the own property
  \<^verbatim>\<open>state\<close> of \<open>x\<close>, or, without one, \<open>x\<close> itself through \<^verbatim>\<open>Object.prototype\<close>. The result
  is the new \<open>x\<close>, the frames, and the exception that nothing catches.
\<close>

definition join_shared ::
    "('c, 'n) env \<Rightarrow> ('c, 'n) shared \<Rightarrow> 'c \<Rightarrow>
       ('c, 'n) shared \<times> ('c \<times> string) list \<times> js_error option" where
  "join_shared e x ws =
     (case held x of
        JObj ps \<Rightarrow>
          (case map_of ps ''clients'' of
             Some (JArr elems) \<Rightarrow>
               (let x' = x\<lparr>pushed := pushed x @ [ws]\<rparr> in
                case map_of ps ''state'' of
                  Some s \<Rightarrow> (x', [(ws, ''/state '' @ JSON_text e s)], None)
                | None \<Rightarrow>
                    (case JSON_text_shared e (held x') (pushed x') of
                       Inl err \<Rightarrow> (x', [], Some err)
                     | Inr t \<Rightarrow> (x', [(ws, ''/state '' @ t)], None)))
           | _ \<Rightarrow> (x, [], Some TypeError))
      | _ \<Rightarrow> (x, [], Some TypeError))"

text \<open>
  The \<^verbatim>\<open>/room\<close> branch after the token check. When \<open>roomId\<close> is one of the names that
  \<^verbatim>\<open>Object.prototype\<close> starts with and no room of the registry, \<^verbatim>\<open>rooms[roomId]\<close> is a
  built-in without \<^verbatim>\<open>clients\<close>, and \<^verbatim>\<open>.push\<close> on \<^verbatim>\<open>undefined\<close> raises a TypeError outside
  any \<^verbatim>\<open>try\<close>. A room id that \<^verbatim>\<open>in\<close> finds and that is neither a room nor one of those
  names is \<^verbatim>\<open>state\<close> with \<^verbatim>\<open>Object.prototype.state\<close> set, so the case \<open>None\<close> of the
  last distinction is never taken; the same holds in the \<^verbatim>\<open>/state\<close> branch.
\<close>

definition join_room ::
    "('c, 'n) env \<Rightarrow> ('c, 'n) shared option \<Rightarrow> ('c, 'n) rooms \<Rightarrow> 'c \<Rightarrow> string \<Rightarrow>
       ('c, 'n) outcome" where
  "join_room e proto rooms ws roomId =
     (if js_in roomId proto rooms then
        (case map_of rooms roomId of
           Some r \<Rightarrow>
             \<lparr>registry = obj_put rooms roomId (r\<lparr>clients := clients r @ [ws]\<rparr>),
              sent = [(ws, ''/state '' @ to_text (JSON_stringify e (state r)))],
              logged = [], uncaught = None, prototype = proto\<rparr>
         | None \<Rightarrow>
             if roomId \<in> set Object_prototype_names then
               \<lparr>registry = rooms, sent = [], logged = [], uncaught = Some TypeError,
                prototype = proto\<rparr>
             else
               (case proto of
                  None \<Rightarrow> unchanged proto rooms
                | Some x \<Rightarrow>
                    (case join_shared e x ws of
                       (x', frames, err) \<Rightarrow>
                         \<lparr>registry = rooms, sent = frames, logged = [], uncaught = err,
                          prototype = Some x'\<rparr>)))
      else
        \<lparr>registry = obj_put rooms roomId \<lparr>state = None, clients = [ws]\<rparr>,
         sent = [], logged = [], uncaught = None, prototype = proto\<rparr>)"

text \<open>
  An element of the parsed \<^verbatim>\<open>clients\<close> array of \<^verbatim>\<open>Object.prototype.state\<close> in the
  \<^verbatim>\<open>forEach\<close>: it is never the sending socket; \<^verbatim>\<open>null.readyState\<close> raises a TypeError,
  and an object whose own \<^verbatim>\<open>readyState\<close> is the number \<^verbatim>\<open>WebSocket.OPEN\<close> has no
  function \<^verbatim>\<open>send\<close>, so the call raises one; every other element is skipped.
\<close>

definition raises_in_loop :: "('c, 'n) env \<Rightarrow> 'n json \<Rightarrow> bool" where
  "raises_in_loop e elem =
     (case elem of
        JNull \<Rightarrow> True
      | JObj ps \<Rightarrow> (case map_of ps ''readyState'' of Some (JNum n) \<Rightarrow> is_OPEN e n | _ \<Rightarrow> False)
      | _ \<Rightarrow> False)"

text \<open>
  \<^verbatim>\<open>rooms['state']\<close> when the registry has no room of that id and
  \<^verbatim>\<open>Object.prototype.state\<close> holds \<open>x\<close>, in the \<^verbatim>\<open>try\<close> of the \<^verbatim>\<open>/state\<close> branch, with
  the parsed payload \<open>st\<close>: the assignment of \<^verbatim>\<open>x.state\<close> raises a TypeError when \<open>x\<close> is
  \<^verbatim>\<open>null\<close> or a primitive (the module is strict), and is not seen again when \<open>x\<close> is an
  array, which has no \<^verbatim>\<open>clients\<close>; on an object it sets the own property. The
  \<^verbatim>\<open>forEach\<close> then runs over the parsed elements and, behind them, the pushed sockets.
  The result is the new \<open>x\<close>, the frames, and what the \<^verbatim>\<open>catch\<close> printed.
\<close>

definition update_shared ::
    "('c, 'n) env \<Rightarrow> ('c, 'n) shared \<Rightarrow> 'c \<Rightarrow> 'n json \<Rightarrow>
       ('c, 'n) shared \<times> ('c \<times> string) list \<times> js_error list" where
  "update_shared e x ws st =
     (case held x of
        JObj ps \<Rightarrow>
          (let x' = x\<lparr>held := JObj (obj_put ps ''state'' st)\<rparr> in
           case map_of ps ''clients'' of
             Some (JArr elems) \<Rightarrow>
               if list_ex (raises_in_loop e) elems then (x', [], [TypeError])
               else
                 (x', fan_out e ws (''/state '' @ to_text (JSON_stringify e (Some st))) (pushed x),
                  [])
           | _ \<Rightarrow> (x', [], [TypeError]))
      | _ \<Rightarrow> (x, [], [TypeError]))"

text \<open>
  The \<^verbatim>\<open>/state\<close> branch. Inside the \<^verbatim>\<open>try\<close>: \<^verbatim>\<open>JSON.parse\<close> may raise; for a room id
  that is one of the names \<^verbatim>\<open>Object.prototype\<close> starts with and no room of the registry,
  the assignment lands on a built-in and \<^verbatim>\<open>.forEach\<close> on \<^verbatim>\<open>undefined\<close> raises a
  TypeError. For \<^verbatim>\<open>__proto__\<close> that built-in is \<^verbatim>\<open>Object.prototype\<close> itself, which takes
  the parsed value as its property \<^verbatim>\<open>state\<close>; the property \<^verbatim>\<open>state\<close> of the other
  built-ins is never read. The \<^verbatim>\<open>catch\<close> prints the exception.
\<close>

definition update_state ::
    "('c, 'n) env \<Rightarrow> ('c, 'n) shared option \<Rightarrow> ('c, 'n) rooms \<Rightarrow> 'c \<Rightarrow> string \<Rightarrow> string \<Rightarrow>
       ('c, 'n) outcome" where
  "update_state e proto rooms ws roomId payload =
     (if \<not> js_in roomId proto rooms then unchanged proto rooms
      else
        (case JSON_parse e payload of
           None \<Rightarrow>
             \<lparr>registry = rooms, sent = [], logged = [SyntaxError], uncaught = None,
              prototype = proto\<rparr>
         | Some st \<Rightarrow>
             (case map_of rooms roomId of
                Some r \<Rightarrow>
                  \<lparr>registry = obj_put rooms roomId (r\<lparr>state := Some st\<rparr>),
                   sent = fan_out e ws (''/state '' @ to_text (JSON_stringify e (Some st)))
                            (clients r),
                   logged = [], uncaught = None, prototype = proto\<rparr>
              | None \<Rightarrow>
                  if roomId \<in> set Object_prototype_names then
                    \<lparr>registry = rooms, sent = [], logged = [TypeError], uncaught = None,
                     prototype =
                       (if roomId = ''__proto__'' then Some \<lparr>held = st, pushed = []\<rparr>
                        else proto)\<rparr>
                  else
                    (case proto of
                       None \<Rightarrow> unchanged proto rooms
                     | Some x \<Rightarrow>
                         (case update_shared e x ws st of
                            (x', frames, errs) \<Rightarrow>
                              \<lparr>registry = rooms, sent = frames, logged = errs,
                               uncaught = None, prototype = Some x'\<rparr>)))))"

text \<open>
  \<^verbatim>\<open>ws.on('message', (data) => ...)\<close> for the socket \<open>ws\<close>, with
  \<^verbatim>\<open>Object.prototype.state\<close> and the registry as the handler finds them.
\<close>

definition on_message ::
    "('c, 'n) env \<Rightarrow> ('c, 'n) shared option \<Rightarrow> ('c, 'n) rooms \<Rightarrow> 'c \<Rightarrow> string \<Rightarrow>
       ('c, 'n) outcome" where
  "on_message e proto rooms ws data =
     (let lineSplit = js_split data in
      if js_index lineSplit 0 = Some ''/room'' \<and> length lineSplit = 3 then
        (let authToken = lineSplit ! 1 in
         if authToken \<noteq> token e then unchanged proto rooms
         else join_room e proto rooms ws (lineSplit ! 2))
      else if js_index lineSplit 0 = Some ''/state'' \<and> length lineSplit > 2 then
        update_state e proto rooms ws (lineSplit ! 1) (js_join (drop 2 lineSplit))
      else unchanged proto rooms)"

section \<open>Running the model\<close>

text \<open>
  What the server takes for granted of the runtime's JSON, for the object with the
  properties \<open>ps\<close>. \<open>reads_back_keys e ps\<close>: \<^verbatim>\<open>JSON.parse\<close> of the text that
  \<^verbatim>\<open>JSON.stringify\<close> writes for it is an object with the same property names.
  \<open>reads_back_at e ps k\<close>: it is an object that has at the name \<open>k\<close> what \<open>ps\<close> has
  there, the same value or no property. Neither says anything of the values at other
  names.
\<close>

definition reads_back_keys :: "('c, 'n) env \<Rightarrow> (string \<times> 'n json) list \<Rightarrow> bool" where
  "reads_back_keys e ps =
     (case JSON_parse e (JSON_text e (JObj ps)) of
        Some (JObj ps') \<Rightarrow> set (map fst ps') = set (map fst ps)
      | _ \<Rightarrow> False)"

definition reads_back_at :: "('c, 'n) env \<Rightarrow> (string \<times> 'n json) list \<Rightarrow> string \<Rightarrow> bool" where
  "reads_back_at e ps k =
     (case JSON_parse e (JSON_text e (JObj ps)) of
        Some (JObj ps') \<Rightarrow> distinct (map fst ps') \<and> map_of ps' k = map_of ps k
      | _ \<Rightarrow> False)"

text \<open>
  A JSON writer and reader for integers and for strings without escape sequences. They
  stand for \<^verbatim>\<open>JSON.stringify\<close> and \<^verbatim>\<open>JSON.parse\<close> when the model is run on concrete
  frames; the fuel of the reader is the length of the text.
\<close>

definition is_ws :: "char \<Rightarrow> bool" where
  "is_ws c = (c = CHR '' '' \<or> c = CHR 0x09 \<or> c = CHR 0x0A \<or> c = CHR 0x0D)"

definition quote :: "string \<Rightarrow> string" where
  "quote s = CHR 0x22 # s @ [CHR 0x22]"

fun commas :: "string list \<Rightarrow> string" where
  "commas [] = []"
| "commas [w] = w"
| "commas (w # v # ws) = w @ CHR '','' # commas (v # ws)"

fun json_write :: "int json \<Rightarrow> string" where
  "json_write JNull = ''null''"
| "json_write (JBool b) = (if b then ''true'' else ''false'')"
| "json_write (JNum n) = (if n < 0 then CHR ''-'' # dec (nat (- n)) else dec (nat n))"
| "json_write (JStr s) = quote s"
| "json_write (JArr xs) = ''['' @ commas (map json_write xs) @ '']''"
| "json_write (JObj ps) =
     ''{'' @ commas (map (\<lambda>p. quote (fst p) @ '':'' @ json_write (snd p)) ps) @ ''}''"

fun read_string :: "string \<Rightarrow> (string \<times> string) option" where
  "read_string [] = None"
| "read_string (c # cs) =
     (if c = CHR 0x22 then Some ([], cs)
      else if c = CHR 0x5C \<or> (of_char c :: nat) < 32 then None
      else (case read_string cs of None \<Rightarrow> None | Some (t, r) \<Rightarrow> Some (c # t, r)))"

definition read_int :: "string \<Rightarrow> (int \<times> string) option" where
  "read_int t =
     (case t of
        [] \<Rightarrow> None
      | c # r \<Rightarrow>
          if c = CHR ''0'' then Some (0, r)
          else if is_digit c then Some (digits_value (takeWhile is_digit t), dropWhile is_digit t)
          else None)"

fun read_value :: "nat \<Rightarrow> string \<Rightarrow> (int json \<times> string) option"
  and read_elements :: "nat \<Rightarrow> string \<Rightarrow> (int json list \<times> string) option"
  and read_members :: "nat \<Rightarrow> string \<Rightarrow> ((string \<times> int json) list \<times> string) option" where
  "read_value 0 s = None"
| "read_value (Suc f) s =
     (let t = dropWhile is_ws s in
      if take 4 t = ''null'' then Some (JNull, drop 4 t)
      else if take 4 t = ''true'' then Some (JBool True, drop 4 t)
      else if take 5 t = ''false'' then Some (JBool False, drop 5 t)
      else
        (case t of
           [] \<Rightarrow> None
         | c # r \<Rightarrow>
             if c = CHR 0x22 then
               (case read_string r of None \<Rightarrow> None | Some (x, r') \<Rightarrow> Some (JStr x, r'))
             else if c = CHR ''-'' then
               (case read_int r of None \<Rightarrow> None | Some (n, r') \<Rightarrow> Some (JNum (- n), r'))
             else if is_digit c then
               (case read_int t of None \<Rightarrow> None | Some (n, r') \<Rightarrow> Some (JNum n, r'))
             else if c = CHR ''['' then
               (if take 1 (dropWhile is_ws r) = '']''
                then Some (JArr [], drop 1 (dropWhile is_ws r))
                else (case read_elements f r of
                        None \<Rightarrow> None
                      | Some (xs, r') \<Rightarrow> Some (JArr xs, r')))
             else if c = CHR ''{'' then
               (if take 1 (dropWhile is_ws r) = ''}''
                then Some (JObj [], drop 1 (dropWhile is_ws r))
                else (case read_members f r of
                        None \<Rightarrow> None
                      | Some (ps, r') \<Rightarrow> Some (JObj (Object_fromEntries ps), r')))
             else None))"
| "read_elements 0 s = None"
| "read_elements (Suc f) s =
     (case read_value f s of
        None \<Rightarrow> None
      | Some (x, r) \<Rightarrow>
          (case dropWhile is_ws r of
             [] \<Rightarrow> None
           | c # r' \<Rightarrow>
               if c = CHR '']'' then Some ([x], r')
               else if c = CHR '','' then
                 (case read_elements f r' of
                    None \<Rightarrow> None
                  | Some (xs, r'') \<Rightarrow> Some (x # xs, r''))
               else None))"
| "read_members 0 s = None"
| "read_members (Suc f) s =
     (case dropWhile is_ws s of
        [] \<Rightarrow> None
      | q # s' \<Rightarrow>
          if q \<noteq> CHR 0x22 then None
          else
            (case read_string s' of
               None \<Rightarrow> None
             | Some (k, r) \<Rightarrow>
                 (case dropWhile is_ws r of
                    [] \<Rightarrow> None
                  | c # r' \<Rightarrow>
                      if c \<noteq> CHR '':'' then None
                      else
                        (case read_value f r' of
                           None \<Rightarrow> None
                         | Some (x, r'') \<Rightarrow>
                             (case dropWhile is_ws r'' of
                                [] \<Rightarrow> None
                              | d # r3 \<Rightarrow>
                                  if d = CHR ''}'' then Some ([(k, x)], r3)
                                  else if d = CHR '','' then
                                    (case read_members f r3 of
                                       None \<Rightarrow> None
                                     | Some (ps, r4) \<Rightarrow> Some ((k, x) # ps, r4))
                                  else None)))))"

definition json_read :: "string \<Rightarrow> int json option" where
  "json_read s =
     (case read_value (Suc (length s)) s of
        None \<Rightarrow> None
      | Some (x, r) \<Rightarrow> if dropWhile is_ws r = [] then Some x else None)"

text \<open>
  A runtime for concrete runs: the token is \<^verbatim>\<open>abc\<close>, sockets are numbered, and socket 3
  is closed (\<^verbatim>\<open>readyState\<close> 3) while every other one is open. Serializing an object
  that holds sockets is taken to raise.
\<close>

definition demo_env :: "(nat, int) env" where
  "demo_env =
     \<lparr>token = ''abc'', JSON_parse = json_read, JSON_text = json_write,
      readyState = (\<lambda>c. if c = 3 then 3 else 1),
      is_OPEN = (\<lambda>n. n = 1),
      JSON_text_shared = (\<lambda>v cs. Inl TypeError)\<rparr>"

section \<open>Properties of the text functions\<close>

lemma js_split_not_Nil: "js_split s \<noteq> []"
  by (induction s) (auto split: list.splits)

lemma js_split_no_space: "CHR '' '' \<notin> set s \<Longrightarrow> js_split s = [s]"
  by (induction s) auto

lemma js_split_append: "js_split (a @ CHR '' '' # b) = js_split a @ js_split b"
proof (induction a)
  case Nil
  show ?case by simp
next
  case (Cons c a)
  obtain w ws where w: "js_split a = w # ws"
    using js_split_not_Nil [of a] by (cases "js_split a") auto
  show ?case using Cons w by simp
qed

lemma js_join_Cons: "ws \<noteq> [] \<Longrightarrow> js_join (w # ws) = w @ CHR '' '' # js_join ws"
  by (cases ws) auto

lemma js_join_split: "js_join (js_split s) = s"
proof (induction s)
  case Nil
  show ?case by simp
next
  case (Cons c s)
  obtain w ws where w: "js_split s = w # ws"
    using js_split_not_Nil [of s] by (cases "js_split s") auto
  show ?case
  proof (cases ws)
    case Nil
    with Cons w show ?thesis by auto
  next
    case (Cons v vs)
    with Cons.IH w show ?thesis by auto
  qed
qed

section \<open>Properties of objects\<close>

lemma map_of_obj_insert:
  "k \<notin> fst ` set ps \<Longrightarrow> map_of (obj_insert ps k v) = (map_of ps)(k \<mapsto> v)"
  by (induction ps) (auto simp: fun_eq_iff)

lemma set_obj_insert: "set (obj_insert ps k v) = insert (k, v) (set ps)"
  by (induction ps) (auto split: if_splits)

lemma distinct_obj_insert:
  "k \<notin> fst ` set ps \<Longrightarrow> distinct (map fst ps) \<Longrightarrow> distinct (map fst (obj_insert ps k v))"
  by (induction ps) (auto simp: set_obj_insert)

lemma map_of_replace_other:
  "x \<noteq> k \<Longrightarrow> map_of (map (\<lambda>p. if fst p = k then (k, v) else p) ps) x = map_of ps x"
  by (induction ps) auto

lemma map_of_replace_same:
  "k \<in> fst ` set ps \<Longrightarrow> map_of (map (\<lambda>p. if fst p = k then (k, v) else p) ps) k = Some v"
  by (induction ps) auto

lemma keys_replace: "fst \<circ> (\<lambda>p. if fst p = k then (k, v) else p) = fst"
  by (auto simp: fun_eq_iff)

lemma map_of_obj_put: "map_of (obj_put obj k v) = (map_of obj)(k \<mapsto> v)"
proof (cases "k \<in> fst ` set obj")
  case True
  then show ?thesis
    by (auto simp: obj_put_def fun_eq_iff map_of_replace_other map_of_replace_same)
next
  case False
  then show ?thesis
    by (simp add: obj_put_def map_of_obj_insert)
qed

lemma keys_obj_put: "fst ` set (obj_put obj k v) = insert k (fst ` set obj)"
proof (cases "k \<in> fst ` set obj")
  case True
  then have "map fst (obj_put obj k v) = map fst obj"
    by (simp add: obj_put_def keys_replace)
  then have "set (map fst (obj_put obj k v)) = set (map fst obj)"
    by (rule arg_cong)
  then show ?thesis
    using True by (simp add: insert_absorb)
next
  case False
  then show ?thesis
    by (simp add: obj_put_def set_obj_insert)
qed

lemma distinct_obj_put: "distinct (map fst obj) \<Longrightarrow> distinct (map fst (obj_put obj k v))"
  by (cases "k \<in> fst ` set obj") (simp_all add: obj_put_def keys_replace distinct_obj_insert)

lemma foldl_obj_put:
  "map_of (foldl (\<lambda>obj p. obj_put obj (fst p) (snd p)) acc es) = map_of acc ++ map_of (rev es)"
proof (induction es arbitrary: acc)
  case Nil
  show ?case by simp
next
  case (Cons p es)
  show ?case
    by (cases p) (auto simp: Cons.IH map_of_obj_put fun_eq_iff map_add_def split: option.splits)
qed

lemma map_of_fromEntries: "map_of (Object_fromEntries es) = map_of (rev es)"
  by (simp add: Object_fromEntries_def foldl_obj_put)

lemma foldl_obj_put_distinct:
  "distinct (map fst acc) \<Longrightarrow>
   distinct (map fst (foldl (\<lambda>obj p. obj_put obj (fst p) (snd p)) acc es))"
  by (induction es arbitrary: acc) (simp_all add: distinct_obj_put)

lemma distinct_fromEntries: "distinct (map fst (Object_fromEntries es))"
  by (simp add: Object_fromEntries_def foldl_obj_put_distinct)

lemma map_of_rev_distinct: "distinct (map fst es) \<Longrightarrow> map_of (rev es) = map_of es"
  by (subst map_of_inject_set) (simp_all add: rev_map [symmetric])

section \<open>Properties of the handler\<close>

lemma fan_out_filter:
  "fan_out e ws frame cs =
     map (\<lambda>c. (c, frame)) (filter (\<lambda>c. c \<noteq> ws \<and> readyState e c = WebSocket_OPEN) cs)"
  by (induction cs) auto

lemma not_inherited_empty: "[] \<notin> set Object_prototype_names"
  by (simp add: Object_prototype_names_def)

lemma join_frame:
  assumes "CHR '' '' \<notin> set a" and "CHR '' '' \<notin> set r"
  shows "js_split (''/room '' @ a @ CHR '' '' # r) = [''/room'', a, r]"
proof -
  have "js_split (''/room '' @ a @ CHR '' '' # r) = js_split ''/room'' @ js_split (a @ CHR '' '' # r)"
    using js_split_append [of "''/room''" "a @ CHR '' '' # r"] by simp
  also have "js_split ''/room'' = [''/room'']"
    by (rule js_split_no_space) simp
  also have "js_split (a @ CHR '' '' # r) = [a, r]"
    using assms by (simp add: js_split_append js_split_no_space)
  finally show ?thesis by simp
qed

lemma state_frame:
  assumes "CHR '' '' \<notin> set r"
  shows "js_split (''/state '' @ r @ CHR '' '' # p) = ''/state'' # r # js_split p"
proof -
  have "js_split (''/state '' @ r @ CHR '' '' # p) = js_split ''/state'' @ js_split (r @ CHR '' '' # p)"
    using js_split_append [of "''/state''" "r @ CHR '' '' # p"] by simp
  also have "js_split ''/state'' = [''/state'']"
    by (rule js_split_no_space) simp
  also have "js_split (r @ CHR '' '' # p) = r # js_split p"
    using assms by (simp add: js_split_append js_split_no_space)
  finally show ?thesis by simp
qed

lemma on_message_join:
  assumes "js_split data = [''/room'', a, r]"
  shows "on_message e P rooms ws data = (if a \<noteq> token e then unchanged P rooms else join_room e P rooms ws r)"
  using assms by (simp add: on_message_def js_index_def)

lemma on_message_update:
  assumes "CHR '' '' \<notin> set r"
  shows "on_message e P rooms ws (''/state '' @ r @ CHR '' '' # p) = update_state e P rooms ws r p"
proof -
  have s: "js_split (''/state '' @ r @ CHR '' '' # p) = ''/state'' # r # js_split p"
    using assms by (rule state_frame)
  have n: "js_split p \<noteq> []" by (rule js_split_not_Nil)
  have j: "js_join (js_split p) = p" by (rule js_join_split)
  show ?thesis
    unfolding on_message_def s using n j by (simp add: js_index_def Let_def)
qed

lemma map_of_Some_key: "map_of ps k = Some v \<Longrightarrow> k \<in> fst ` set ps"
  using map_of_eq_None_iff [of ps k] by auto

lemma own_js_in: "map_of rooms roomId = Some r \<Longrightarrow> js_in roomId P rooms"
  by (simp add: js_in_def map_of_Some_key)

lemma update_state_own:
  assumes "map_of rooms roomId = Some r" and "JSON_parse e payload = Some v"
  shows "update_state e P rooms ws roomId payload =
           \<lparr>registry = obj_put rooms roomId (r\<lparr>state := Some v\<rparr>),
            sent = map (\<lambda>c. (c, ''/state '' @ JSON_text e v))
                     (filter (\<lambda>c. c \<noteq> ws \<and> readyState e c = WebSocket_OPEN) (clients r)),
            logged = [], uncaught = None, prototype = P\<rparr>"
  using assms
  by (simp add: update_state_def own_js_in fan_out_filter JSON_stringify_def to_text_def)

lemma filter_eq_distinct:
  "distinct xs \<Longrightarrow> filter (\<lambda>x. x = c) xs = (if c \<in> set xs then [c] else [])"
  by (induction xs) auto

lemma frames_to_one:
  assumes "distinct cs"
  shows "filter (\<lambda>m. fst m = c) (map (\<lambda>x. (x, f)) (filter P cs)) =
           (if c \<in> set cs \<and> P c then [(c, f)] else [])"
proof -
  have "filter (\<lambda>m. fst m = c) (map (\<lambda>x. (x, f)) (filter P cs)) =
          map (\<lambda>x. (x, f)) (filter (\<lambda>x. x = c) (filter P cs))"
    by (simp add: filter_map comp_def)
  also have "filter (\<lambda>x. x = c) (filter P cs) = (if c \<in> set (filter P cs) then [c] else [])"
    using assms by (intro filter_eq_distinct) simp
  finally show ?thesis by auto
qed

section \<open>Concrete values\<close>

lemma demo_token: "token demo_env = ''abc''"
  by (simp add: demo_env_def)

lemma demo_read_x1: \<open>JSON_parse demo_env ''{"x": 1}'' = Some (JObj [(''x'', JNum 1)])\<close>
  by code_simp

lemma demo_text_x1: \<open>JSON_text demo_env (JObj [(''x'', JNum 1)]) = ''{"x":1}''\<close>
  by code_simp

lemma demo_read_bad: \<open>JSON_parse demo_env ''{"x": '' = None\<close>
  by code_simp

lemma demo_read_5: \<open>JSON_parse demo_env ''5'' = Some (JNum 5)\<close>
  by code_simp

section \<open>Joining a room\<close>

lemma join_new_room:
  assumes "CHR '' '' \<notin> set (token e)" and "CHR '' '' \<notin> set roomId"
    and "map_of rooms roomId = None" and "roomId \<notin> set Object_prototype_names"
    and "roomId \<noteq> ''state'' \<or> P = None"
  shows "on_message e P rooms ws (''/room '' @ token e @ CHR '' '' # roomId) =
           \<lparr>registry = obj_put rooms roomId \<lparr>state = None, clients = [ws]\<rparr>,
            sent = [], logged = [], uncaught = None, prototype = P\<rparr>"
proof -
  have "roomId \<notin> fst ` set rooms"
    using assms(3) by (simp add: map_of_eq_None_iff)
  then have "\<not> js_in roomId P rooms"
    using assms(4,5) by (auto simp: js_in_def)
  moreover have "js_split (''/room '' @ token e @ CHR '' '' # roomId) = [''/room'', token e, roomId]"
    using assms(1,2) by (rule join_frame)
  ultimately show ?thesis
    by (simp add: on_message_join join_room_def)
qed

text \<open>
  Claim C3. A join \<^verbatim>\<open>/room <authToken> <roomId>\<close> that carries the shared token, for a
  room id that the registry holds with state \<open>S\<close>: the joining socket is appended to the
  members of that room, every other room is as before, and exactly one frame is sent, to
  the joining socket, with the text \<^verbatim>\<open>/state \<close> followed by the serialized \<open>S\<close>, which is
  the literal \<^verbatim>\<open>/state undefined\<close> when \<open>S\<close> is unset.
\<close>

theorem join_existing_room:
  assumes "CHR '' '' \<notin> set (token e)" and "CHR '' '' \<notin> set roomId"
    and "map_of rooms roomId = Some r"
  shows "on_message e P rooms ws (''/room '' @ token e @ CHR '' '' # roomId) =
           \<lparr>registry = obj_put rooms roomId (r\<lparr>clients := clients r @ [ws]\<rparr>),
            sent = [(ws, ''/state '' @ (case state r of None \<Rightarrow> ''undefined''
                                         | Some s \<Rightarrow> JSON_text e s))],
            logged = [], uncaught = None, prototype = P\<rparr>
         \<and> map_of (obj_put rooms roomId (r\<lparr>clients := clients r @ [ws]\<rparr>)) =
             (map_of rooms)(roomId \<mapsto> r\<lparr>clients := clients r @ [ws]\<rparr>)"
proof -
  have "roomId \<in> fst ` set rooms"
    using assms(3) map_of_eq_None_iff [of rooms roomId] by auto
  then have "js_in roomId P rooms"
    by (simp add: js_in_def)
  moreover have "js_split (''/room '' @ token e @ CHR '' '' # roomId) = [''/room'', token e, roomId]"
    using assms(1,2) by (rule join_frame)
  ultimately show ?thesis
    using assms(3)
    by (cases "state r")
       (simp_all add: on_message_join join_room_def JSON_stringify_def to_text_def map_of_obj_put)
qed

theorem join_existing_room_witness:
  \<open>CHR '' '' \<notin> set (token demo_env)
   \<and> on_message demo_env None [(''r1'', \<lparr>state = None, clients = [1]\<rparr>)] 2 ''/room abc r1'' =
     \<lparr>registry = [(''r1'', \<lparr>state = None, clients = [1, 2]\<rparr>)],
      sent = [(2, ''/state undefined'')], logged = [], uncaught = None, prototype = None\<rparr>
   \<and> on_message demo_env None [(''r1'', \<lparr>state = Some (JObj [(''x'', JNum 1)]), clients = [1]\<rparr>)] 2
       ''/room abc r1'' =
     \<lparr>registry = [(''r1'', \<lparr>state = Some (JObj [(''x'', JNum 1)]), clients = [1, 2]\<rparr>)],
      sent = [(2, ''/state {"x":1}'')], logged = [], uncaught = None, prototype = None\<rparr>\<close>
proof -
  have h1: "CHR '' '' \<notin> set (token demo_env)" by (simp add: demo_token)
  have h2: "CHR '' '' \<notin> set ''r1''" by simp
  have a: "map_of [(''r1'', \<lparr>state = None, clients = [1 :: nat]\<rparr>)] ''r1'' =
      Some (\<lparr>state = None, clients = [1]\<rparr> :: (nat, int) room)" by simp
  have b: "map_of [(''r1'', \<lparr>state = Some (JObj [(''x'', JNum 1)]), clients = [1 :: nat]\<rparr>)] ''r1'' =
      Some (\<lparr>state = Some (JObj [(''x'', JNum 1)]), clients = [1]\<rparr> :: (nat, int) room)" by simp
  show ?thesis
    using h1 join_existing_room [OF h1 h2 a, where ws = 2 and P = None]
      join_existing_room [OF h1 h2 b, where ws = 2 and P = None]
    by (simp add: demo_token demo_text_x1 obj_put_def)
qed

text \<open>
  Claim C4, at the room id \<^verbatim>\<open>constructor\<close>, which the registry does not hold: the test
  \<^verbatim>\<open>roomId in rooms\<close> is true through \<^verbatim>\<open>Object.prototype\<close>, the handler takes the branch
  of an existing room and raises a TypeError that nothing catches. No room is created and
  the joining socket is no member of anything. For a room id that \<^verbatim>\<open>in\<close> does not find on
  \<^verbatim>\<open>Object.prototype\<close> the room is created, with the joining socket as its only member and
  no frame sent (\<open>join_new_room\<close>).
\<close>

theorem join_inherited_name_throws:
  "on_message demo_env None [] 1 ''/room abc constructor'' =
     \<lparr>registry = [], sent = [], logged = [], uncaught = Some TypeError, prototype = None\<rparr>"
  by (simp add: on_message_def js_index_def demo_env_def join_room_def js_in_def
      Object_prototype_names_def)

text \<open>
  Claim C5. A join whose \<^verbatim>\<open>authToken\<close> differs from the shared token leaves the registry
  as it was, sends no frame to any socket, and raises nothing. The comparison is the
  equality of the two texts, code unit by code unit.
\<close>

theorem join_wrong_token:
  assumes "js_split data = [''/room'', authToken, roomId]" and "authToken \<noteq> token e"
  shows "on_message e P rooms ws data =
           \<lparr>registry = rooms, sent = [], logged = [], uncaught = None, prototype = P\<rparr>"
  using assms by (simp add: on_message_join unchanged_def)

theorem join_wrong_token_witness:
  "js_split ''/room ABC r1'' = [''/room'', ''ABC'', ''r1''] \<and> ''ABC'' \<noteq> token demo_env
   \<and> on_message demo_env None [(''r1'', \<lparr>state = None, clients = [1]\<rparr>)] 2 ''/room ABC r1'' =
       \<lparr>registry = [(''r1'', \<lparr>state = None, clients = [1]\<rparr>)], sent = [], logged = [],
        uncaught = None, prototype = None\<rparr>"
proof -
  have s: "js_split ''/room ABC r1'' = [''/room'', ''ABC'', ''r1'']" by simp
  have n: "''ABC'' \<noteq> token demo_env" by (simp add: demo_env_def)
  show ?thesis
    using s n join_wrong_token [OF s n, where rooms = "[(''r1'', \<lparr>state = None, clients = [1]\<rparr>)]"
        and ws = 2 and P = None]
    by simp
qed

text \<open>
  Claim C7 says that a \<^verbatim>\<open>/room\<close> frame of three tokens with an empty \<^verbatim>\<open>authToken\<close> or an
  empty \<^verbatim>\<open>roomId\<close> is discarded. The handler has no test for emptiness: the frame
  \<^verbatim>\<open>/room abc \<close> (with a trailing space), under the token \<^verbatim>\<open>abc\<close>, creates the room whose
  id is the empty text.
\<close>

theorem join_empty_room_id_creates_room:
  "js_split ''/room abc '' = [''/room'', ''abc'', []]
   \<and> registry (on_message demo_env None [] 7 ''/room abc '') \<noteq> []
   \<and> on_message demo_env None [] 7 ''/room abc '' =
       \<lparr>registry = [([], \<lparr>state = None, clients = [7]\<rparr>)], sent = [], logged = [],
        uncaught = None, prototype = None\<rparr>"
  by (simp add: on_message_def js_index_def demo_token join_room_def js_in_def
      Object_prototype_names_def obj_put_def)

text \<open>
  Claim C7, amended. For a frame that splits into the three tokens \<^verbatim>\<open>/room\<close>,
  \<^verbatim>\<open>authToken\<close>, \<^verbatim>\<open>roomId\<close>: an empty \<^verbatim>\<open>authToken\<close> is discarded, with no side effect and
  no frame, whenever the shared token is not empty; an empty \<^verbatim>\<open>roomId\<close> with the shared
  token is an ordinary join of the room whose id is the empty text, which is created
  with the joining socket as only member when the registry does not hold it, and joined
  with one state frame when it does.
\<close>

theorem join_with_empty_field:
  assumes "js_split data = [''/room'', authToken, roomId]"
  shows "(authToken = [] \<and> token e \<noteq> [] \<longrightarrow>
            on_message e P rooms ws data =
              \<lparr>registry = rooms, sent = [], logged = [], uncaught = None, prototype = P\<rparr>)
         \<and> (roomId = [] \<and> authToken = token e \<longrightarrow>
            on_message e P rooms ws data =
              (case map_of rooms [] of
                 None \<Rightarrow>
                   \<lparr>registry = obj_put rooms [] \<lparr>state = None, clients = [ws]\<rparr>,
                    sent = [], logged = [], uncaught = None, prototype = P\<rparr>
               | Some r \<Rightarrow>
                   \<lparr>registry = obj_put rooms [] (r\<lparr>clients := clients r @ [ws]\<rparr>),
                    sent = [(ws, ''/state '' @ to_text (JSON_stringify e (state r)))],
                    logged = [], uncaught = None, prototype = P\<rparr>))"
proof -
  have own: "js_in [] P rooms \<longleftrightarrow> map_of rooms [] \<noteq> None"
    by (simp add: js_in_def not_inherited_empty map_of_eq_None_iff)
  show ?thesis
    using own
    by (auto simp: on_message_join [OF assms] unchanged_def join_room_def split: option.splits)
qed

theorem join_with_empty_field_witness:
  "js_split ''/room  r1'' = [''/room'', [], ''r1''] \<and> token demo_env \<noteq> []
   \<and> on_message demo_env None [] 7 ''/room  r1'' =
       \<lparr>registry = [], sent = [], logged = [], uncaught = None, prototype = None\<rparr>
   \<and> js_split ''/room abc '' = [''/room'', ''abc'', []] \<and> ''abc'' = token demo_env
   \<and> on_message demo_env None [] 7 ''/room abc '' =
       \<lparr>registry = obj_put [] [] \<lparr>state = None, clients = [7]\<rparr>, sent = [], logged = [],
        uncaught = None, prototype = None\<rparr>
   \<and> on_message demo_env None [([], \<lparr>state = None, clients = [7]\<rparr>)] 8 ''/room abc '' =
       \<lparr>registry = [([], \<lparr>state = None, clients = [7, 8]\<rparr>)],
        sent = [(8, ''/state undefined'')], logged = [], uncaught = None, prototype = None\<rparr>"
proof -
  have s1: "js_split ''/room  r1'' = [''/room'', [], ''r1'']" by simp
  have s2: "js_split ''/room abc '' = [''/room'', ''abc'', []]" by simp
  show ?thesis
    using s1 s2
      join_with_empty_field [OF s1, where e = demo_env and rooms = "[]" and ws = 7 and P = None]
      join_with_empty_field [OF s2, where e = demo_env and rooms = "[]" and ws = 7 and P = None]
      join_with_empty_field [OF s2, where e = demo_env
        and rooms = "[([], \<lparr>state = None, clients = [7]\<rparr>)]" and ws = 8 and P = None]
    by (simp add: demo_token obj_put_def JSON_stringify_def to_text_def)
qed

section \<open>Updating a room\<close>

text \<open>
  Claim C1. An update \<^verbatim>\<open>/state <roomId> <payload>\<close> with a payload that \<^verbatim>\<open>JSON.parse\<close>
  accepts, on a room that the registry holds and whose members are pairwise different:
  the state of the room becomes the parsed value, members and other rooms stay as they
  are; every member other than the sender whose \<^verbatim>\<open>readyState\<close> is \<^verbatim>\<open>OPEN\<close> is sent
  exactly one frame, \<^verbatim>\<open>/state \<close> followed by \<^verbatim>\<open>JSON.stringify\<close> of the parsed value;
  nobody else is sent anything, the sender included.
\<close>

theorem update_fans_out:
  assumes "CHR '' '' \<notin> set roomId" and "map_of rooms roomId = Some r"
    and "distinct (clients r)" and "JSON_parse e payload = Some v"
  shows "map_of (registry (on_message e P rooms ws (''/state '' @ roomId @ CHR '' '' # payload))) =
           (map_of rooms)(roomId \<mapsto> r\<lparr>state := Some v\<rparr>)
         \<and> (\<forall>c. filter (\<lambda>m. fst m = c)
                  (sent (on_message e P rooms ws (''/state '' @ roomId @ CHR '' '' # payload))) =
                (if c \<in> set (clients r) \<and> c \<noteq> ws \<and> readyState e c = WebSocket_OPEN
                 then [(c, ''/state '' @ JSON_text e v)] else []))
         \<and> uncaught (on_message e P rooms ws (''/state '' @ roomId @ CHR '' '' # payload)) = None"
proof -
  have "on_message e P rooms ws (''/state '' @ roomId @ CHR '' '' # payload) =
          update_state e P rooms ws roomId payload"
    using assms(1) by (rule on_message_update)
  then show ?thesis
    using assms(3) by (simp add: update_state_own [OF assms(2,4)] map_of_obj_put frames_to_one)
qed

theorem update_fans_out_witness:
  \<open>map_of [(''r1'', \<lparr>state = None, clients = [1, 2, 3 :: nat]\<rparr>)] ''r1'' =
     Some (\<lparr>state = None, clients = [1, 2, 3]\<rparr> :: (nat, int) room)
   \<and> distinct [1, 2, 3 :: nat]
   \<and> JSON_parse demo_env ''{"x": 1}'' = Some (JObj [(''x'', JNum 1)])
   \<and> map_of (registry (on_message demo_env None [(''r1'', \<lparr>state = None, clients = [1, 2, 3]\<rparr>)] 1
        ''/state r1 {"x": 1}'')) ''r1'' =
        Some \<lparr>state = Some (JObj [(''x'', JNum 1)]), clients = [1, 2, 3]\<rparr>
   \<and> filter (\<lambda>m. fst m = 1) (sent (on_message demo_env None
        [(''r1'', \<lparr>state = None, clients = [1, 2, 3]\<rparr>)] 1 ''/state r1 {"x": 1}'')) = []
   \<and> filter (\<lambda>m. fst m = 2) (sent (on_message demo_env None
        [(''r1'', \<lparr>state = None, clients = [1, 2, 3]\<rparr>)] 1 ''/state r1 {"x": 1}'')) =
        [(2, ''/state {"x":1}'')]
   \<and> filter (\<lambda>m. fst m = 3) (sent (on_message demo_env None
        [(''r1'', \<lparr>state = None, clients = [1, 2, 3]\<rparr>)] 1 ''/state r1 {"x": 1}'')) = []
   \<and> uncaught (on_message demo_env None [(''r1'', \<lparr>state = None, clients = [1, 2, 3]\<rparr>)] 1
        ''/state r1 {"x": 1}'') = None\<close>
proof -
  have h1: "CHR '' '' \<notin> set ''r1''" by simp
  have h2: "map_of [(''r1'', \<lparr>state = None, clients = [1, 2, 3 :: nat]\<rparr>)] ''r1'' =
      Some (\<lparr>state = None, clients = [1, 2, 3]\<rparr> :: (nat, int) room)" by simp
  have h3: "distinct (clients (\<lparr>state = None, clients = [1, 2, 3 :: nat]\<rparr> :: (nat, int) room))"
    by simp
  have h4: \<open>JSON_parse demo_env ''{"x": 1}'' = Some (JObj [(''x'', JNum 1)])\<close>
    by (rule demo_read_x1)
  have o: "readyState demo_env (Suc 0) = Suc 0 \<and> readyState demo_env 2 = Suc 0
      \<and> readyState demo_env 3 = 3"
    by (simp add: demo_env_def)
  show ?thesis
    using update_fans_out [OF h1 h2 h3 h4, where ws = 1 and P = None] h4
    by (simp add: o demo_text_x1 WebSocket_OPEN_def)
qed

text \<open>
  Claim C8. An update from a socket that is not a member of the room is handled like
  any other: the state is replaced, every member whose \<^verbatim>\<open>readyState\<close> is \<^verbatim>\<open>OPEN\<close> is sent
  the frame, and the registry that results does not depend on which socket sent the
  update.
\<close>

theorem update_from_non_member:
  assumes "CHR '' '' \<notin> set roomId" and "map_of rooms roomId = Some r"
    and "ws \<notin> set (clients r)" and "JSON_parse e payload = Some v"
  shows "on_message e P rooms ws (''/state '' @ roomId @ CHR '' '' # payload) =
           \<lparr>registry = obj_put rooms roomId (r\<lparr>state := Some v\<rparr>),
            sent = map (\<lambda>c. (c, ''/state '' @ JSON_text e v))
                     (filter (\<lambda>c. readyState e c = WebSocket_OPEN) (clients r)),
            logged = [], uncaught = None, prototype = P\<rparr>
         \<and> map_of (obj_put rooms roomId (r\<lparr>state := Some v\<rparr>)) =
             (map_of rooms)(roomId \<mapsto> r\<lparr>state := Some v\<rparr>)
         \<and> (\<forall>m. registry (on_message e P rooms m (''/state '' @ roomId @ CHR '' '' # payload)) =
                 registry (on_message e P rooms ws (''/state '' @ roomId @ CHR '' '' # payload)))"
proof -
  have u: "on_message e P rooms m (''/state '' @ roomId @ CHR '' '' # payload) =
          update_state e P rooms m roomId payload" for m
    using assms(1) by (rule on_message_update)
  have "filter (\<lambda>c. c \<noteq> ws \<and> readyState e c = WebSocket_OPEN) (clients r) =
          filter (\<lambda>c. readyState e c = WebSocket_OPEN) (clients r)"
    using assms(3) by (intro filter_cong) auto
  then show ?thesis
    unfolding u by (simp add: update_state_own [OF assms(2,4)] map_of_obj_put)
qed

theorem update_from_non_member_witness:
  \<open>map_of [(''r1'', \<lparr>state = None, clients = [1, 2, 3 :: nat]\<rparr>)] ''r1'' =
     Some (\<lparr>state = None, clients = [1, 2, 3]\<rparr> :: (nat, int) room)
   \<and> 9 \<notin> set [1, 2, 3 :: nat]
   \<and> JSON_parse demo_env ''{"x": 1}'' = Some (JObj [(''x'', JNum 1)])
   \<and> on_message demo_env None [(''r1'', \<lparr>state = None, clients = [1, 2, 3]\<rparr>)] 9
        ''/state r1 {"x": 1}'' =
       \<lparr>registry = [(''r1'', \<lparr>state = Some (JObj [(''x'', JNum 1)]), clients = [1, 2, 3]\<rparr>)],
        sent = [(1, ''/state {"x":1}''), (2, ''/state {"x":1}'')],
        logged = [], uncaught = None, prototype = None\<rparr>\<close>
proof -
  have h1: "CHR '' '' \<notin> set ''r1''" by simp
  have h2: "map_of [(''r1'', \<lparr>state = None, clients = [1, 2, 3 :: nat]\<rparr>)] ''r1'' =
      Some (\<lparr>state = None, clients = [1, 2, 3]\<rparr> :: (nat, int) room)" by simp
  have h3: "9 \<notin> set (clients (\<lparr>state = None, clients = [1, 2, 3 :: nat]\<rparr> :: (nat, int) room))"
    by simp
  have h4: \<open>JSON_parse demo_env ''{"x": 1}'' = Some (JObj [(''x'', JNum 1)])\<close>
    by (rule demo_read_x1)
  have o: "readyState demo_env (Suc 0) = Suc 0 \<and> readyState demo_env 2 = Suc 0
      \<and> readyState demo_env 3 = 3"
    by (simp add: demo_env_def)
  show ?thesis
    using update_from_non_member [OF h1 h2 h3 h4, where P = None] h4
    by (simp add: o demo_text_x1 WebSocket_OPEN_def obj_put_def)
qed

lemma update_not_visible:
  assumes "CHR '' '' \<notin> set roomId" and "\<not> js_in roomId P rooms"
  shows "on_message e P rooms ws (''/state '' @ roomId @ CHR '' '' # payload) =
           \<lparr>registry = rooms, sent = [], logged = [], uncaught = None, prototype = P\<rparr>"
proof -
  have "on_message e P rooms ws (''/state '' @ roomId @ CHR '' '' # payload) =
          update_state e P rooms ws roomId payload"
    using assms(1) by (rule on_message_update)
  then show ?thesis
    using assms(2) by (simp add: update_state_def unchanged_def)
qed

lemma update_rejected_payload:
  assumes "CHR '' '' \<notin> set roomId" and "JSON_parse e payload = None"
  shows "registry (on_message e P rooms ws (''/state '' @ roomId @ CHR '' '' # payload)) = rooms
         \<and> sent (on_message e P rooms ws (''/state '' @ roomId @ CHR '' '' # payload)) = []
         \<and> uncaught (on_message e P rooms ws (''/state '' @ roomId @ CHR '' '' # payload)) = None
         \<and> prototype (on_message e P rooms ws (''/state '' @ roomId @ CHR '' '' # payload)) = P"
proof -
  have "on_message e P rooms ws (''/state '' @ roomId @ CHR '' '' # payload) =
          update_state e P rooms ws roomId payload"
    using assms(1) by (rule on_message_update)
  then show ?thesis
    using assms(2) by (simp add: update_state_def unchanged_def)
qed

lemma failed_update_while_pristine:
  assumes "CHR '' '' \<notin> set roomId"
    and "map_of rooms roomId = None \<or> JSON_parse e payload = None"
  shows "registry (on_message e None rooms ws (''/state '' @ roomId @ CHR '' '' # payload)) = rooms
         \<and> sent (on_message e None rooms ws (''/state '' @ roomId @ CHR '' '' # payload)) = []
         \<and> uncaught (on_message e None rooms ws (''/state '' @ roomId @ CHR '' '' # payload)) = None"
proof -
  have "on_message e None rooms ws (''/state '' @ roomId @ CHR '' '' # payload) =
          update_state e None rooms ws roomId payload"
    using assms(1) by (rule on_message_update)
  then show ?thesis
    using assms(2)
    by (auto simp: update_state_def unchanged_def split: option.splits)
qed

text \<open>
  Claim C6, at an update for a room id that the registry does not hold. The registry is
  empty. The frame \<^verbatim>\<open>/state __proto__ {"clients":[],"state":0}\<close> passes the test
  \<^verbatim>\<open>roomId in rooms\<close> through \<^verbatim>\<open>Object.prototype\<close>, and the assignment
  \<^verbatim>\<open>rooms[roomId].state = state\<close> gives \<^verbatim>\<open>Object.prototype\<close> the property \<^verbatim>\<open>state\<close>. From
  then on \<^verbatim>\<open>'state' in rooms\<close> is true: the join \<^verbatim>\<open>/room abc state\<close> of socket 1 pushes it
  onto the \<^verbatim>\<open>clients\<close> of that value, and the update \<^verbatim>\<open>/state state 5\<close> of socket 2 sends
  \<^verbatim>\<open>/state 5\<close> to socket 1, although the registry holds no room \<^verbatim>\<open>state\<close> and is empty
  throughout. The claim holds of a payload that \<^verbatim>\<open>JSON.parse\<close> rejects
  (\<open>update_rejected_payload\<close>), of a room id that \<^verbatim>\<open>in\<close> does not find
  (\<open>update_not_visible\<close>), and of every update while \<^verbatim>\<open>Object.prototype\<close> has no property
  \<^verbatim>\<open>state\<close> (\<open>failed_update_while_pristine\<close>).
\<close>

theorem update_of_absent_room_sends:
  \<open>on_message demo_env None [] 2 ''/state __proto__ {"clients":[],"state":0}'' =
     \<lparr>registry = [], sent = [], logged = [TypeError], uncaught = None,
      prototype = Some \<lparr>held = JObj [(''clients'', JArr []), (''state'', JNum 0)], pushed = []\<rparr>\<rparr>
   \<and> on_message demo_env
        (Some \<lparr>held = JObj [(''clients'', JArr []), (''state'', JNum 0)], pushed = []\<rparr>) [] 1
        ''/room abc state'' =
     \<lparr>registry = [], sent = [(1, ''/state 0'')], logged = [], uncaught = None,
      prototype = Some \<lparr>held = JObj [(''clients'', JArr []), (''state'', JNum 0)], pushed = [1]\<rparr>\<rparr>
   \<and> map_of ([] :: (nat, int) rooms) ''state'' = None
   \<and> on_message demo_env
        (Some \<lparr>held = JObj [(''clients'', JArr []), (''state'', JNum 0)], pushed = [1]\<rparr>) [] 2
        ''/state state 5'' =
     \<lparr>registry = [], sent = [(1, ''/state 5'')], logged = [], uncaught = None,
      prototype = Some \<lparr>held = JObj [(''clients'', JArr []), (''state'', JNum 5)], pushed = [1]\<rparr>\<rparr>\<close>
proof -
  have p1: \<open>JSON_parse demo_env ''{"clients":[],"state":0}'' =
      Some (JObj [(''clients'', JArr []), (''state'', JNum 0)])\<close>
    by code_simp
  have p2: "JSON_parse demo_env ''5'' = Some (JNum 5)"
    by (rule demo_read_5)
  have t0: "JSON_text demo_env (JNum 0) = ''0''" and t5: "JSON_text demo_env (JNum 5) = ''5''"
    by code_simp+
  have o: "readyState demo_env (Suc 0) = Suc 0"
    by (simp add: demo_env_def)
  have s1: \<open>on_message demo_env None [] 2 ''/state __proto__ {"clients":[],"state":0}'' =
      update_state demo_env None [] 2 ''__proto__'' ''{"clients":[],"state":0}''\<close>
    using on_message_update [of "''__proto__''" demo_env None "[]" 2 \<open>''{"clients":[],"state":0}''\<close>]
    by simp
  have s3: "on_message demo_env
        (Some \<lparr>held = JObj [(''clients'', JArr []), (''state'', JNum 0)], pushed = [1]\<rparr>) [] 2
        ''/state state 5'' =
      update_state demo_env
        (Some \<lparr>held = JObj [(''clients'', JArr []), (''state'', JNum 0)], pushed = [1]\<rparr>) [] 2
        ''state'' ''5''"
    using on_message_update [of "''state''" demo_env
        "Some \<lparr>held = JObj [(''clients'', JArr []), (''state'', JNum 0)], pushed = [1]\<rparr>" "[]" 2 "''5''"]
    by simp
  have a: \<open>update_state demo_env None [] 2 ''__proto__'' ''{"clients":[],"state":0}'' =
     \<lparr>registry = [], sent = [], logged = [TypeError], uncaught = None,
      prototype = Some \<lparr>held = JObj [(''clients'', JArr []), (''state'', JNum 0)], pushed = []\<rparr>\<rparr>\<close>
    by (simp add: update_state_def js_in_def Object_prototype_names_def p1)
  have b: "on_message demo_env
        (Some \<lparr>held = JObj [(''clients'', JArr []), (''state'', JNum 0)], pushed = []\<rparr>) [] 1
        ''/room abc state'' =
     \<lparr>registry = [], sent = [(1, ''/state 0'')], logged = [], uncaught = None,
      prototype = Some \<lparr>held = JObj [(''clients'', JArr []), (''state'', JNum 0)], pushed = [1]\<rparr>\<rparr>"
    by (simp add: on_message_def js_index_def demo_token join_room_def js_in_def
        Object_prototype_names_def join_shared_def t0)
  have c: "update_state demo_env
        (Some \<lparr>held = JObj [(''clients'', JArr []), (''state'', JNum 0)], pushed = [1]\<rparr>) [] 2
        ''state'' ''5'' =
     \<lparr>registry = [], sent = [(1, ''/state 5'')], logged = [], uncaught = None,
      prototype = Some \<lparr>held = JObj [(''clients'', JArr []), (''state'', JNum 5)], pushed = [1]\<rparr>\<rparr>"
    by (simp add: update_state_def js_in_def Object_prototype_names_def p2 update_shared_def
        obj_put_def JSON_stringify_def to_text_def t5 o WebSocket_OPEN_def)
  show ?thesis
    using a b c by (simp only: s1 s3 map_of.simps)
qed

section \<open>The registry only grows\<close>

lemma join_room_cases:
  "registry (join_room e P rooms ws k) = rooms
   \<or> (\<exists>r'. registry (join_room e P rooms ws k) = obj_put rooms k r'
        \<and> (case map_of rooms k of None \<Rightarrow> True | Some r \<Rightarrow> prefix (clients r) (clients r')))"
proof (cases "map_of rooms k")
  case None
  then show ?thesis
    by (auto simp: join_room_def unchanged_def split: option.splits prod.splits)
next
  case (Some r)
  then show ?thesis by (auto simp: join_room_def own_js_in)
qed

lemma update_state_cases:
  "registry (update_state e P rooms ws k p) = rooms
   \<or> (\<exists>r'. registry (update_state e P rooms ws k p) = obj_put rooms k r'
        \<and> (case map_of rooms k of None \<Rightarrow> True | Some r \<Rightarrow> prefix (clients r) (clients r')))"
proof (cases "map_of rooms k")
  case None
  then show ?thesis
    by (auto simp: update_state_def unchanged_def split: option.splits prod.splits)
next
  case (Some r)
  then show ?thesis
    by (cases "JSON_parse e p") (auto simp: update_state_def own_js_in)
qed

lemma registry_cases:
  "registry (on_message e P rooms ws data) = rooms
   \<or> (\<exists>k r'. registry (on_message e P rooms ws data) = obj_put rooms k r'
        \<and> (case map_of rooms k of None \<Rightarrow> True | Some r \<Rightarrow> prefix (clients r) (clients r')))"
proof -
  have "(\<exists>k. on_message e P rooms ws data = join_room e P rooms ws k)
      \<or> (\<exists>k p. on_message e P rooms ws data = update_state e P rooms ws k p)
      \<or> on_message e P rooms ws data = unchanged P rooms"
    by (simp add: on_message_def Let_def) blast
  then consider (join) k where "on_message e P rooms ws data = join_room e P rooms ws k"
    | (update) k p where "on_message e P rooms ws data = update_state e P rooms ws k p"
    | (none) "on_message e P rooms ws data = unchanged P rooms"
    by blast
  then show ?thesis
  proof cases
    case join
    then show ?thesis using join_room_cases [of e P rooms ws k] by auto
  next
    case update
    then show ?thesis using update_state_cases [of e P rooms ws k p] by auto
  next
    case none
    then show ?thesis by (simp add: unchanged_def)
  qed
qed

text \<open>
  Claim C9. For every frame and every registry, whatever the handler does with the frame
  (also when it raises): every room id of the registry before is a room id of the
  registry after, and every room's list of members after begins with its list of members
  before. Nothing removes a room or a member.
\<close>

theorem registry_only_grows:
  "fst ` set rooms \<subseteq> fst ` set (registry (on_message e P rooms ws data))
   \<and> (\<forall>k r. map_of rooms k = Some r \<longrightarrow>
        (\<exists>r'. map_of (registry (on_message e P rooms ws data)) k = Some r'
           \<and> prefix (clients r) (clients r')))"
proof -
  consider (same) "registry (on_message e P rooms ws data) = rooms"
    | (put) k' r' where "registry (on_message e P rooms ws data) = obj_put rooms k' r'"
        and "case map_of rooms k' of None \<Rightarrow> True | Some r \<Rightarrow> prefix (clients r) (clients r')"
    using registry_cases [of e P rooms ws data] by blast
  then show ?thesis
  proof cases
    case same
    then show ?thesis by simp
  next
    case put
    have keys: "fst ` set rooms \<subseteq> fst ` set (registry (on_message e P rooms ws data))"
      unfolding put(1) keys_obj_put by blast
    have "\<exists>r''. map_of (obj_put rooms k' r') k = Some r'' \<and> prefix (clients r) (clients r'')"
      if "map_of rooms k = Some r" for k r
    proof (cases "k = k'")
      case True
      with that put(2) show ?thesis by (simp add: map_of_obj_put)
    next
      case False
      with that show ?thesis by (simp add: map_of_obj_put)
    qed
    then show ?thesis
      using keys unfolding put(1) by blast
  qed
qed

theorem registry_only_grows_witness:
  "map_of [(''r1'', \<lparr>state = None, clients = [1 :: nat]\<rparr>)] ''r1'' =
     Some (\<lparr>state = None, clients = [1]\<rparr> :: (nat, int) room)
   \<and> (\<exists>r'. map_of (registry (on_message demo_env None [(''r1'', \<lparr>state = None, clients = [1]\<rparr>)] 2
               ''/room abc r1'')) ''r1'' = Some r'
          \<and> prefix [1] (clients r'))
   \<and> registry (on_message demo_env None [(''r1'', \<lparr>state = None, clients = [1]\<rparr>)] 2 ''/room abc r1'') =
       [(''r1'', \<lparr>state = None, clients = [1, 2]\<rparr>)]"
proof -
  have a: "map_of [(''r1'', \<lparr>state = None, clients = [1 :: nat]\<rparr>)] ''r1'' =
      Some (\<lparr>state = None, clients = [1]\<rparr> :: (nat, int) room)" by simp
  have b: "registry (on_message demo_env None [(''r1'', \<lparr>state = None, clients = [1]\<rparr>)] 2
      ''/room abc r1'') = [(''r1'', \<lparr>state = None, clients = [1, 2]\<rparr>)]"
    by (simp add: on_message_def js_index_def demo_token join_room_def js_in_def obj_put_def)
  have "\<exists>r'. map_of (registry (on_message demo_env None [(''r1'', \<lparr>state = None, clients = [1]\<rparr>)] 2
               ''/room abc r1'')) ''r1'' = Some r'
          \<and> prefix (clients (\<lparr>state = None, clients = [1 :: nat]\<rparr> :: (nat, int) room)) (clients r')"
    using registry_only_grows [where rooms = "[(''r1'', \<lparr>state = None, clients = [1 :: nat]\<rparr>)]"
        and e = demo_env and ws = 2 and data = "''/room abc r1''" and P = None] a
    by blast
  then show ?thesis using a b by simp
qed

section \<open>Saving and loading the snapshot\<close>

lemma keys_defined_props: "fst ` set (defined_props ps) \<subseteq> fst ` set ps"
  by (induction ps rule: defined_props.induct) auto

lemma distinct_defined_props:
  "distinct (map fst ps) \<Longrightarrow> distinct (map fst (defined_props ps))"
proof (induction ps rule: defined_props.induct)
  case 1
  show ?case by simp
next
  case (2 k ps)
  then show ?case by simp
next
  case (3 k v ps)
  have "k \<notin> fst ` set (defined_props ps)"
    using 3(2) keys_defined_props [of ps] by auto
  then show ?case using 3 by simp
qed

lemma map_of_defined_props:
  "distinct (map fst ps) \<Longrightarrow>
   map_of (defined_props ps) k = (case map_of ps k of None \<Rightarrow> None | Some x \<Rightarrow> x)"
proof (induction ps rule: defined_props.induct)
  case 1
  show ?case by simp
next
  case (2 k' ps)
  have "k' \<notin> fst ` set ps"
    using 2(2) by simp
  then have "map_of ps k' = None" and "k' \<notin> fst ` set (defined_props ps)"
    using keys_defined_props [of ps] by (auto simp: map_of_eq_None_iff)
  then have "map_of (defined_props ps) k' = None"
    by (simp add: map_of_eq_None_iff)
  then show ?case using 2 \<open>map_of ps k' = None\<close> by simp
next
  case (3 k' v ps)
  then show ?case by simp
qed

lemma map_of_state_entries:
  "map_of (map (\<lambda>(key, value). (key, state value)) rooms) k = map_option state (map_of rooms k)"
  by (induction rooms) auto

lemma keys_state_entries:
  "map fst (map (\<lambda>(key, value). (key, state value)) rooms) = map fst rooms"
  by (induction rooms) auto

lemma map_of_snapshot_props:
  assumes "distinct (map fst rooms)"
  shows "map_of (snapshot_props rooms) k =
           (case map_of rooms k of None \<Rightarrow> None | Some r \<Rightarrow> state r)"
proof -
  let ?es = "map (\<lambda>(key, value). (key, state value)) rooms"
  have d: "distinct (map fst ?es)"
    using assms by (simp only: keys_state_entries)
  have "map_of (Object_fromEntries ?es) k = map_option state (map_of rooms k)"
    by (simp only: map_of_fromEntries map_of_rev_distinct [OF d] map_of_state_entries)
  then show ?thesis
    unfolding snapshot_props_def
    by (simp add: map_of_defined_props [OF distinct_fromEntries] split: option.splits)
qed

lemma distinct_snapshot_props: "distinct (map fst (snapshot_props rooms))"
  unfolding snapshot_props_def by (rule distinct_defined_props [OF distinct_fromEntries])

lemma map_of_room_entries:
  "map_of (map (\<lambda>(key, value). (key, \<lparr>state = Some value, clients = []\<rparr>)) ps) k =
     map_option (\<lambda>value. \<lparr>state = Some value, clients = []\<rparr>) (map_of ps k)"
  by (induction ps) auto

lemma keys_room_entries:
  "map fst (map (\<lambda>(key, value). (key, \<lparr>state = Some value, clients = []\<rparr>)) ps) = map fst ps"
  by (induction ps) auto

lemma load_of_object:
  assumes "JSON_parse e text = Some (JObj ps)" and "distinct (map fst ps)"
  shows "map_of (load_db e (Some text)) k =
           map_option (\<lambda>value. \<lparr>state = Some value, clients = []\<rparr>) (map_of ps k)"
proof -
  let ?es = "map (\<lambda>(key, value). (key, \<lparr>state = Some value, clients = []\<rparr>)) ps"
  have d: "distinct (map fst ?es)"
    using assms(2) by (simp only: keys_room_entries)
  have "load_db e (Some text) = Object_fromEntries ?es"
    using assms(1) by (simp add: load_db_def)
  then show ?thesis
    by (simp only: map_of_fromEntries map_of_rev_distinct [OF d] map_of_room_entries)
qed

lemma keys_foldl_obj_put:
  "fst ` set (foldl (\<lambda>obj p. obj_put obj (fst p) (snd p)) acc es) = fst ` set acc \<union> fst ` set es"
  by (induction es arbitrary: acc) (auto simp: keys_obj_put)

lemma keys_fromEntries: "fst ` set (Object_fromEntries es) = fst ` set es"
  by (simp add: Object_fromEntries_def keys_foldl_obj_put)

lemma load_keys:
  assumes "JSON_parse e text = Some (JObj ps)"
  shows "fst ` set (load_db e (Some text)) = fst ` set ps"
proof -
  have "load_db e (Some text) =
      Object_fromEntries (map (\<lambda>(key, value). (key, \<lparr>state = Some value, clients = []\<rparr>)) ps)"
    using assms by (simp add: load_db_def)
  moreover have "fst ` set (map (\<lambda>(key, value). (key, \<lparr>state = Some value, clients = []\<rparr>)) ps) =
      fst ` set ps"
    using keys_room_entries [of ps] by (metis list.set_map)
  ultimately show ?thesis
    by (simp only: keys_fromEntries)
qed

lemma reads_back_atD:
  assumes "reads_back_at e ps k"
  obtains ps' where "JSON_parse e (JSON_text e (JObj ps)) = Some (JObj ps')"
    and "distinct (map fst ps')" and "map_of ps' k = map_of ps k"
  using assms by (auto simp: reads_back_at_def split: option.splits json.splits)

lemma reads_back_keysD:
  assumes "reads_back_keys e ps"
  obtains ps' where "JSON_parse e (JSON_text e (JObj ps)) = Some (JObj ps')"
    and "fst ` set ps' = fst ` set ps"
  using assms by (auto simp: reads_back_keys_def split: option.splits json.splits)

lemma demo_property_order:
  "Object_fromEntries [(''b'', 1 :: nat), (''10'', 2), (''9'', 3), (''b'', 4)] =
     [(''9'', 3), (''10'', 2), (''b'', 4)]"
  by code_simp

text \<open>
  Claim C2 says that every room of the registry is there again after a snapshot write
  and a load of that snapshot. A room that a first join has just created has no state
  yet, the snapshot of a registry with only that room is the text \<^verbatim>\<open>{}\<close>, and the load
  of it gives the empty registry: the room is gone.
\<close>

theorem snapshot_drops_unset_room:
  \<open>registry (on_message demo_env None [] 1 ''/room abc r1'') =
     [(''r1'', \<lparr>state = None, clients = [1]\<rparr>)]
   \<and> saveStateToDisk demo_env [(''r1'', \<lparr>state = None, clients = [1]\<rparr>)] = ''{}''
   \<and> load_db demo_env (Some (saveStateToDisk demo_env [(''r1'', \<lparr>state = None, clients = [1]\<rparr>)])) = []
   \<and> map_of (load_db demo_env
        (Some (saveStateToDisk demo_env [(''r1'', \<lparr>state = None, clients = [1]\<rparr>)]))) ''r1'' \<noteq>
      Some \<lparr>state = None, clients = []\<rparr>\<close>
proof -
  have a: "registry (on_message demo_env None [] 1 ''/room abc r1'') =
      [(''r1'', \<lparr>state = None, clients = [1]\<rparr>)]"
    by (simp add: on_message_def js_index_def demo_token join_room_def js_in_def
        Object_prototype_names_def obj_put_def)
  have b: "saveStateToDisk demo_env [(''r1'', \<lparr>state = None, clients = [1 :: nat]\<rparr>)] = ''{}''"
    by code_simp
  have c: "load_db demo_env (Some ''{}'') = []"
    by code_simp
  show ?thesis
    using a b c by simp
qed

text \<open>
  Claim C2, amended. For a registry (an object: no room id twice) and a room of it, in
  a runtime where \<^verbatim>\<open>JSON.parse\<close> of the written snapshot is an object that has at the id
  of the room what was written there (the same state, or no property when none was
  written): the snapshot has the room's state at its id when the state is set and no
  property of that id when it is unset; after the snapshot write and a load of that
  snapshot, a room whose state was set is in the registry with the same state and no
  member, and a room whose state was unset is not in the registry.
\<close>

theorem snapshot_round_trip:
  assumes "distinct (map fst rooms)" and "map_of rooms k = Some r"
    and "reads_back_at e (snapshot_props rooms) k"
  shows "map_of (snapshot_props rooms) k = state r
         \<and> map_of (load_db e (Some (saveStateToDisk e rooms))) k =
             (case state r of
                None \<Rightarrow> None
              | Some v \<Rightarrow> Some \<lparr>state = Some v, clients = []\<rparr>)"
proof -
  have written: "map_of (snapshot_props rooms) k = state r"
    using assms(2) by (simp add: map_of_snapshot_props [OF assms(1)])
  obtain ps' where p: "JSON_parse e (saveStateToDisk e rooms) = Some (JObj ps')"
    and d: "distinct (map fst ps')" and v: "map_of ps' k = map_of (snapshot_props rooms) k"
    using assms(3) unfolding saveStateToDisk_def by (rule reads_back_atD)
  have "map_of (load_db e (Some (saveStateToDisk e rooms))) k =
      map_option (\<lambda>value. \<lparr>state = Some value, clients = []\<rparr>) (map_of ps' k)"
    using p d by (rule load_of_object)
  then show ?thesis
    using written v by (simp split: option.splits)
qed

theorem snapshot_round_trip_witness:
  \<open>distinct (map fst ([(''r1'', \<lparr>state = None, clients = [1 :: nat]\<rparr>),
       (''r2'', \<lparr>state = Some (JObj [(''x'', JNum 1)]), clients = [1, 2]\<rparr>)] :: (nat, int) rooms))
   \<and> reads_back_at demo_env (snapshot_props
        [(''r1'', \<lparr>state = None, clients = [1 :: nat]\<rparr>),
         (''r2'', \<lparr>state = Some (JObj [(''x'', JNum 1)]), clients = [1, 2]\<rparr>)]) ''r1''
   \<and> reads_back_at demo_env (snapshot_props
        [(''r1'', \<lparr>state = None, clients = [1 :: nat]\<rparr>),
         (''r2'', \<lparr>state = Some (JObj [(''x'', JNum 1)]), clients = [1, 2]\<rparr>)]) ''r2''
   \<and> saveStateToDisk demo_env
        [(''r1'', \<lparr>state = None, clients = [1 :: nat]\<rparr>),
         (''r2'', \<lparr>state = Some (JObj [(''x'', JNum 1)]), clients = [1, 2]\<rparr>)] =
        ''{"r2":{"x":1}}''
   \<and> map_of (snapshot_props
        [(''r1'', \<lparr>state = None, clients = [1 :: nat]\<rparr>),
         (''r2'', \<lparr>state = Some (JObj [(''x'', JNum (1 :: int))]), clients = [1, 2]\<rparr>)]) ''r1'' = None
   \<and> map_of (load_db demo_env (Some (saveStateToDisk demo_env
        [(''r1'', \<lparr>state = None, clients = [1 :: nat]\<rparr>),
         (''r2'', \<lparr>state = Some (JObj [(''x'', JNum 1)]), clients = [1, 2]\<rparr>)]))) ''r1'' = None
   \<and> map_of (load_db demo_env (Some (saveStateToDisk demo_env
        [(''r1'', \<lparr>state = None, clients = [1 :: nat]\<rparr>),
         (''r2'', \<lparr>state = Some (JObj [(''x'', JNum 1)]), clients = [1, 2]\<rparr>)]))) ''r2'' =
        Some \<lparr>state = Some (JObj [(''x'', JNum 1)]), clients = []\<rparr>\<close>
proof -
  let ?rooms = "[(''r1'', \<lparr>state = None, clients = [1 :: nat]\<rparr>),
      (''r2'', \<lparr>state = Some (JObj [(''x'', JNum 1)]), clients = [1, 2]\<rparr>)] :: (nat, int) rooms"
  have h1: "distinct (map fst ?rooms)" by simp
  have m1: "map_of ?rooms ''r1'' = Some \<lparr>state = None, clients = [1]\<rparr>"
    and m2: "map_of ?rooms ''r2'' = Some \<lparr>state = Some (JObj [(''x'', JNum 1)]), clients = [1, 2]\<rparr>"
    by simp_all
  have b1: "reads_back_at demo_env (snapshot_props ?rooms) ''r1''" by code_simp
  have b2: "reads_back_at demo_env (snapshot_props ?rooms) ''r2''" by code_simp
  have t: \<open>saveStateToDisk demo_env ?rooms = ''{"r2":{"x":1}}''\<close> by code_simp
  have r1: "map_of (snapshot_props ?rooms) ''r1'' = None
      \<and> map_of (load_db demo_env (Some (saveStateToDisk demo_env ?rooms))) ''r1'' = None"
    using snapshot_round_trip [OF h1 m1 b1] by simp
  have r2: "map_of (load_db demo_env (Some (saveStateToDisk demo_env ?rooms))) ''r2'' =
      Some \<lparr>state = Some (JObj [(''x'', JNum 1)]), clients = []\<rparr>"
    using snapshot_round_trip [OF h1 m2 b2] by simp
  show ?thesis
    using h1 b1 b2 t r1 r2 by blast
qed

text \<open>
  Claim C10. The object that the snapshot write serializes has, for every room whose
  state is set, the property room id with that state, and no property at all for a room
  whose state is unset or for any other name. So, in a runtime where \<^verbatim>\<open>JSON.parse\<close> of
  the written text is an object with the same property names, a room with an unset state
  is not in the registry after the load, and a room with a state is.
\<close>

theorem unset_rooms_are_not_saved:
  assumes "distinct (map fst rooms)"
  shows "(\<forall>k. map_of (snapshot_props rooms) k =
              (case map_of rooms k of None \<Rightarrow> None | Some r \<Rightarrow> state r))
         \<and> (reads_back_keys e (snapshot_props rooms) \<longrightarrow>
              (\<forall>k r. map_of rooms k = Some r \<longrightarrow>
                 (state r = None \<longrightarrow>
                    map_of (load_db e (Some (saveStateToDisk e rooms))) k = None)
                 \<and> (state r \<noteq> None \<longrightarrow>
                    map_of (load_db e (Some (saveStateToDisk e rooms))) k \<noteq> None)))"
proof -
  have written: "map_of (snapshot_props rooms) k =
      (case map_of rooms k of None \<Rightarrow> None | Some r \<Rightarrow> state r)" for k
    by (rule map_of_snapshot_props [OF assms])
  have loaded: "(map_of (load_db e (Some (saveStateToDisk e rooms))) k = None) = (state r = None)"
    if keys: "reads_back_keys e (snapshot_props rooms)" and room: "map_of rooms k = Some r" for k r
  proof -
    obtain ps' where p: "JSON_parse e (saveStateToDisk e rooms) = Some (JObj ps')"
      and same: "fst ` set ps' = fst ` set (snapshot_props rooms)"
      using keys unfolding saveStateToDisk_def by (rule reads_back_keysD)
    have "(map_of (load_db e (Some (saveStateToDisk e rooms))) k = None) =
        (k \<notin> fst ` set (snapshot_props rooms))"
      by (simp only: map_of_eq_None_iff load_keys [OF p] same)
    also have "\<dots> = (map_of (snapshot_props rooms) k = None)"
      by (simp only: map_of_eq_None_iff)
    also have "\<dots> = (state r = None)"
      using room by (simp add: written)
    finally show ?thesis .
  qed
  show ?thesis
  proof (intro conjI allI impI)
    fix k
    show "map_of (snapshot_props rooms) k =
        (case map_of rooms k of None \<Rightarrow> None | Some r \<Rightarrow> state r)"
      by (rule written)
  next
    fix k r
    assume "reads_back_keys e (snapshot_props rooms)" and "map_of rooms k = Some r"
      and "state r = None"
    then show "map_of (load_db e (Some (saveStateToDisk e rooms))) k = None"
      using loaded [of k r] by simp
  next
    fix k r
    assume "reads_back_keys e (snapshot_props rooms)" and "map_of rooms k = Some r"
      and "state r \<noteq> None"
    then show "map_of (load_db e (Some (saveStateToDisk e rooms))) k \<noteq> None"
      using loaded [of k r] by simp
  qed
qed

theorem unset_rooms_are_not_saved_witness:
  \<open>distinct (map fst ([(''r1'', \<lparr>state = None, clients = [1 :: nat]\<rparr>),
                         (''r2'', \<lparr>state = Some (JNum 5), clients = []\<rparr>)] :: (nat, int) rooms))
   \<and> reads_back_keys demo_env (snapshot_props
        [(''r1'', \<lparr>state = None, clients = [1 :: nat]\<rparr>),
         (''r2'', \<lparr>state = Some (JNum 5), clients = []\<rparr>)])
   \<and> saveStateToDisk demo_env
        [(''r1'', \<lparr>state = None, clients = [1 :: nat]\<rparr>),
         (''r2'', \<lparr>state = Some (JNum 5), clients = []\<rparr>)] = ''{"r2":5}''
   \<and> map_of (snapshot_props [(''r1'', \<lparr>state = None, clients = [1 :: nat]\<rparr>),
         (''r2'', \<lparr>state = Some (JNum (5 :: int)), clients = []\<rparr>)]) ''r1'' = None
   \<and> map_of (snapshot_props [(''r1'', \<lparr>state = None, clients = [1 :: nat]\<rparr>),
         (''r2'', \<lparr>state = Some (JNum (5 :: int)), clients = []\<rparr>)]) ''r2'' = Some (JNum 5)
   \<and> map_of (load_db demo_env (Some (saveStateToDisk demo_env
        [(''r1'', \<lparr>state = None, clients = [1 :: nat]\<rparr>),
         (''r2'', \<lparr>state = Some (JNum 5), clients = []\<rparr>)]))) ''r1'' = None
   \<and> map_of (load_db demo_env (Some (saveStateToDisk demo_env
        [(''r1'', \<lparr>state = None, clients = [1 :: nat]\<rparr>),
         (''r2'', \<lparr>state = Some (JNum 5), clients = []\<rparr>)]))) ''r2'' \<noteq> None\<close>
proof -
  let ?rooms = "[(''r1'', \<lparr>state = None, clients = [1 :: nat]\<rparr>),
                 (''r2'', \<lparr>state = Some (JNum 5), clients = []\<rparr>)] :: (nat, int) rooms"
  have h1: "distinct (map fst ?rooms)" by simp
  have h2: "reads_back_keys demo_env (snapshot_props ?rooms)" by code_simp
  have t: \<open>saveStateToDisk demo_env ?rooms = ''{"r2":5}''\<close> by code_simp
  have m1: "map_of ?rooms ''r1'' = Some \<lparr>state = None, clients = [1]\<rparr>"
    and m2: "map_of ?rooms ''r2'' = Some \<lparr>state = Some (JNum 5), clients = []\<rparr>"
    by simp_all
  note T = unset_rooms_are_not_saved [OF h1, of demo_env]
  have s1: "map_of (snapshot_props ?rooms) ''r1'' = None"
    using T [THEN conjunct1, THEN spec, of "''r1''"] by simp
  have s2: "map_of (snapshot_props ?rooms) ''r2'' = Some (JNum 5)"
    using T [THEN conjunct1, THEN spec, of "''r2''"] by simp
  note L = T [THEN conjunct2, THEN mp, OF h2]
  have r1: "map_of (load_db demo_env (Some (saveStateToDisk demo_env ?rooms))) ''r1'' = None"
    using L [THEN spec, THEN spec, THEN mp, OF m1] by simp
  have r2: "map_of (load_db demo_env (Some (saveStateToDisk demo_env ?rooms))) ''r2'' \<noteq> None"
    using L [THEN spec, THEN spec, THEN mp, OF m2] by simp
  show ?thesis
    using h1 h2 t s1 s2 r1 r2 by blast
qed

end
